theory Spec2Isabelle
  imports Complex_Main
begin

section \<open>The icon generator \<^verbatim>\<open>generate-icons.py\<close>\<close>

text \<open>
  The script draws one square icon per pixel size with the Pillow imaging library and
  saves it as a PNG file. Its own code is arithmetic on the size (border width, text
  position, shadow offset), a fixed sequence of drawing calls, one \<^verbatim>\<open>try/except\<close>
  around the font loading, and a loop over eight sizes. This theory embeds that code.

  What the script calls but does not define is modelled as follows.
  \<^item> Python integers are \<^typ>\<open>int\<close>; \<^verbatim>\<open>//\<close> is floor division, which is \<open>div\<close> on
    \<^typ>\<open>int\<close>.
  \<^item> An image is the record of what \<^verbatim>\<open>Image.new\<close> was given, together with the list of
    drawing calls made on it, oldest first. Pillow (from version 9.5) raises
    \<^verbatim>\<open>ValueError\<close> when \<^verbatim>\<open>Image.new\<close> is given a negative size and when
    \<^verbatim>\<open>draw.rectangle\<close> is given a box whose second corner lies left of or above its
    first; \<open>create_icon\<close> has both checks. How Pillow turns the calls into pixels and
    the pixels into the bytes of a PNG file is outside the model.
  \<^item> Fonts, font loading and text measurement belong to the platform: they are fields of
    an environment record \<open>pil\<close>, and every theorem holds for every environment.
  \<^item> The file system is a set of directories and a map from paths to files, without
    symbolic links, permissions or limits; memory is unbounded; the standard output is
    the list of printed lines.
  \<^item> An uncaught exception ends the run: a fallible operation returns \<open>Inl (e, w)\<close>, the
    exception together with the world at the moment it was raised, or \<open>Inr w\<close>.
\<close>

subsection \<open>Exceptions, fonts, images\<close>

datatype py_error =
    OSError
  | ValueError
  | FileNotFoundError
  | FileExistsError
  | NotADirectoryError
  | IsADirectoryError
  | KeyboardInterrupt

datatype font = FreeTypeFont string int | DefaultFont

type_synonym colour = string
type_synonym point = "int \<times> int"
type_synonym box = "point \<times> point"
type_synonym bbox = "int \<times> int \<times> int \<times> int"

text \<open>The two drawing calls of the script, with their arguments in the order
  \<^verbatim>\<open>draw.rectangle(xy, outline, width)\<close> and \<^verbatim>\<open>draw.text(xy, text, fill, font)\<close>.\<close>

datatype draw_op =
    Rectangle box colour int
  | Text point string colour font

record image =
  im_mode :: string
  im_size :: "int \<times> int"
  im_color :: colour
  drawn :: "draw_op list"

text \<open>The platform: \<^verbatim>\<open>ImageFont.truetype(path, size)\<close>, which raises when the font file
  cannot be used, \<^verbatim>\<open>ImageFont.load_default()\<close>, which returns the font built into Pillow,
  and \<^verbatim>\<open>draw.textbbox(xy, text, font)\<close>, which returns the four edges of the text.\<close>

record pil =
  truetype :: "string \<Rightarrow> int \<Rightarrow> py_error + font"
  load_default :: font
  textbbox :: "point \<Rightarrow> string \<Rightarrow> font \<Rightarrow> bbox"

definition Image_new :: "string \<Rightarrow> int \<times> int \<Rightarrow> colour \<Rightarrow> image" where
  "Image_new m s c = \<lparr>im_mode = m, im_size = s, im_color = c, drawn = []\<rparr>"

definition rectangle :: "box \<Rightarrow> colour \<Rightarrow> int \<Rightarrow> image \<Rightarrow> image" where
  "rectangle xy outline w img = img\<lparr>drawn := drawn img @ [Rectangle xy outline w]\<rparr>"

definition draw_text :: "point \<Rightarrow> string \<Rightarrow> colour \<Rightarrow> font \<Rightarrow> image \<Rightarrow> image" where
  "draw_text xy t fill f img = img\<lparr>drawn := drawn img @ [Text xy t fill f]\<rparr>"

subsection \<open>Files, directories, standard output\<close>

datatype content = Encoded string image

record world =
  dirs :: "string set"
  files :: "string \<rightharpoonup> content"
  stdout :: "string list"

type_synonym outcome = "(py_error \<times> world) + world"

definition print :: "string \<Rightarrow> world \<Rightarrow> world" where
  "print s w = w\<lparr>stdout := stdout w @ [s]\<rparr>"

text \<open>\<^verbatim>\<open>os.path.basename\<close> and \<^verbatim>\<open>os.path.dirname\<close>: what follows the last slash, and
  what precedes it, without the slashes that end it unless it consists of slashes only.\<close>

definition basename :: "string \<Rightarrow> string" where
  "basename p = rev (takeWhile (\<lambda>c. c \<noteq> CHR ''/'') (rev p))"

definition dirname :: "string \<Rightarrow> string" where
  "dirname p =
     (let head = rev (dropWhile (\<lambda>c. c \<noteq> CHR ''/'') (rev p))
      in if dropWhile (\<lambda>c. c = CHR ''/'') head = [] then head
         else rev (dropWhile (\<lambda>c. c = CHR ''/'') (rev head)))"

text \<open>Many strings name the same directory: repeated slashes, a slash at the end and the
  component \<^verbatim>\<open>.\<close> make no difference. The world holds a directory under the name
  without them. The component \<^verbatim>\<open>..\<close> is not interpreted.\<close>

fun split_path :: "string \<Rightarrow> string list" where
  "split_path [] = [[]]"
| "split_path (c # cs) =
     (if c = CHR ''/'' then [] # split_path cs
      else (case split_path cs of [] \<Rightarrow> [[c]] | x # xs \<Rightarrow> (c # x) # xs))"

fun join_path :: "string list \<Rightarrow> string" where
  "join_path [] = []"
| "join_path [x] = x"
| "join_path (x # y # ys) = x @ CHR ''/'' # join_path (y # ys)"

definition canonical :: "string \<Rightarrow> string" where
  "canonical p =
     (if take 1 p = ''/'' then ''/'' else [])
       @ join_path (filter (\<lambda>c. c \<noteq> [] \<and> c \<noteq> ''.'') (split_path p))"

text \<open>The current directory and the root always exist.\<close>

definition dir_exists :: "world \<Rightarrow> string \<Rightarrow> bool" where
  "dir_exists w d =
     (canonical d = [] \<or> canonical d = ''/'' \<or> canonical d \<in> dirs w)"

text \<open>\<^verbatim>\<open>img.save(fp, format)\<close> opens \<open>fp\<close> for writing, which truncates an existing file.
  The open fails on the empty path and on a path with a null character, when the
  directory of \<open>fp\<close> is missing, and when \<open>fp\<close> names a directory, which it does when it
  ends in a slash or in the component \<^verbatim>\<open>.\<close> or \<^verbatim>\<open>..\<close>. The file is kept under the
  string it was written with.\<close>

definition save :: "image \<Rightarrow> string \<Rightarrow> string \<Rightarrow> world \<Rightarrow> outcome" where
  "save img fp format w =
     (if CHR 0x00 \<in> set fp then Inl (ValueError, w)
      else if fp = [] then Inl (FileNotFoundError, w)
      else if \<not> dir_exists w (dirname fp) then
        (if files w (canonical (dirname fp)) \<noteq> None then Inl (NotADirectoryError, w)
         else Inl (FileNotFoundError, w))
      else if basename fp \<in> {[], ''.'', ''..''} \<or> canonical fp \<in> dirs w
        then Inl (IsADirectoryError, w)
      else Inr (w\<lparr>files := (files w)(fp \<mapsto> Encoded format img)\<rparr>))"

text \<open>The proper ancestors of a relative path without repeated slashes, outermost first:
  for \<^verbatim>\<open>images/icons\<close> that is \<^verbatim>\<open>images\<close>.\<close>

fun ancestors_from :: "string \<Rightarrow> string \<Rightarrow> string list" where
  "ancestors_from pre [] = []"
| "ancestors_from pre (c # cs) =
     (if c = CHR ''/'' \<and> pre \<noteq> [] then pre # ancestors_from (pre @ [c]) cs
      else ancestors_from (pre @ [c]) cs)"

definition ancestors :: "string \<Rightarrow> string list" where
  "ancestors p = ancestors_from [] p"

fun mkdir_missing :: "string list \<Rightarrow> world \<Rightarrow> outcome" where
  "mkdir_missing [] w = Inr w"
| "mkdir_missing (d # ds) w =
     (if d \<in> dirs w then mkdir_missing ds w
      else if files w d \<noteq> None then Inl (NotADirectoryError, w)
      else mkdir_missing ds (w\<lparr>dirs := insert d (dirs w)\<rparr>))"

text \<open>\<^verbatim>\<open>os.makedirs(name, exist_ok)\<close>: creates the missing ancestors, then the directory
  itself; an existing directory is accepted when \<open>exist_ok\<close> holds, an existing file
  never.\<close>

definition makedirs :: "string \<Rightarrow> bool \<Rightarrow> world \<Rightarrow> outcome" where
  "makedirs name exist_ok w =
     (case mkdir_missing (ancestors name) w of
        Inl e \<Rightarrow> Inl e
      | Inr w' \<Rightarrow>
          if name \<in> dirs w' then (if exist_ok then Inr w' else Inl (FileExistsError, w'))
          else if files w' name \<noteq> None then Inl (FileExistsError, w')
          else Inr (w'\<lparr>dirs := insert name (dirs w')\<rparr>))"

subsection \<open>Formatting an integer in an f-string\<close>

definition digit_char :: "nat \<Rightarrow> char" where
  "digit_char d = ''0123456789'' ! d"

fun str_nat :: "nat \<Rightarrow> string" where
  "str_nat n = (if n < 10 then [digit_char n] else str_nat (n div 10) @ [digit_char (n mod 10)])"

declare str_nat.simps [simp del]

definition str_int :: "int \<Rightarrow> string" where
  "str_int i = (if i < 0 then CHR ''-'' # str_nat (nat (- i)) else str_nat (nat i))"

subsection \<open>\<^verbatim>\<open>create_icon\<close>\<close>

text \<open>The local variables of \<^verbatim>\<open>create_icon(size, output_path)\<close>, each as a function of
  what it is computed from, in the order of the source.\<close>

definition border_width :: "int \<Rightarrow> int" where
  "border_width sz = max 2 (sz div 40)"

definition border_box :: "int \<Rightarrow> box" where
  "border_box sz =
     ((border_width sz, border_width sz), (sz - border_width sz, sz - border_width sz))"

definition font_path :: string where
  "font_path = ''/System/Library/Fonts/Helvetica.ttc''"

text \<open>The \<^verbatim>\<open>try\<close> block asks for the font at \<open>size // 2\<close>; the bare \<^verbatim>\<open>except\<close> catches
  every exception and takes the default font instead.\<close>

definition load_font :: "pil \<Rightarrow> int \<Rightarrow> font" where
  "load_font env sz =
     (let font_size = sz div 2 in
      case truetype env font_path font_size of
        Inr f \<Rightarrow> f
      | Inl e \<Rightarrow> load_default env)"

definition icon_text :: string where
  "icon_text = ''IM''"

definition text_bbox :: "pil \<Rightarrow> int \<Rightarrow> bbox" where
  "text_bbox env sz = textbbox env (0, 0) icon_text (load_font env sz)"

definition text_width :: "pil \<Rightarrow> int \<Rightarrow> int" where
  "text_width env sz = (case text_bbox env sz of (b0, b1, b2, b3) \<Rightarrow> b2 - b0)"

definition text_height :: "pil \<Rightarrow> int \<Rightarrow> int" where
  "text_height env sz = (case text_bbox env sz of (b0, b1, b2, b3) \<Rightarrow> b3 - b1)"

definition text_x :: "pil \<Rightarrow> int \<Rightarrow> int" where
  "text_x env sz = (sz - text_width env sz) div 2"

definition text_y :: "pil \<Rightarrow> int \<Rightarrow> int" where
  "text_y env sz =
     (case text_bbox env sz of (b0, b1, b2, b3) \<Rightarrow> (sz - text_height env sz) div 2 - b1)"

definition shadow_offset :: "int \<Rightarrow> int" where
  "shadow_offset sz = max 1 (sz div 100)"

text \<open>Lines 11 to 45: the image as it is when \<^verbatim>\<open>img.save\<close> is reached, which it is when
  Pillow has accepted the size and the border box.\<close>

definition render :: "pil \<Rightarrow> int \<Rightarrow> image" where
  "render env sz =
     (let img = Image_new ''RGB'' (sz, sz) ''#4CAF50'';
          img = rectangle (border_box sz) ''#2E7D32'' (border_width sz) img;
          font = load_font env sz;
          x = text_x env sz;
          y = text_y env sz;
          img = draw_text (x + shadow_offset sz, y + shadow_offset sz) icon_text
                  ''#1B5E20'' font img;
          img = draw_text (x, y) icon_text ''white'' font img
      in img)"

definition created_line :: "string \<Rightarrow> int \<Rightarrow> string" where
  "created_line output_path sz =
     ''Created '' @ output_path @ '' ('' @ str_int sz @ ''x'' @ str_int sz @ '')''"

text \<open>The two argument checks of Pillow: \<^verbatim>\<open>Image.new\<close> wants a width and a height that
  are not negative, \<^verbatim>\<open>draw.rectangle\<close> a box whose first corner is component-wise at most
  its second. Either raises \<^verbatim>\<open>ValueError\<close>, the first at line 11, the second at line 16,
  before any text is drawn and before the file is opened.\<close>

definition Image_new_accepts :: "int \<times> int \<Rightarrow> bool" where
  "Image_new_accepts s = (0 \<le> fst s \<and> 0 \<le> snd s)"

definition well_formed :: "box \<Rightarrow> bool" where
  "well_formed b = (fst (fst b) \<le> fst (snd b) \<and> snd (fst b) \<le> snd (snd b))"

definition create_icon :: "pil \<Rightarrow> int \<Rightarrow> string \<Rightarrow> world \<Rightarrow> outcome" where
  "create_icon env sz output_path w =
     (if \<not> Image_new_accepts (sz, sz) then Inl (ValueError, w)
      else if \<not> well_formed (border_box sz) then Inl (ValueError, w)
      else
        (case save (render env sz) output_path ''PNG'' w of
           Inl e \<Rightarrow> Inl e
         | Inr w' \<Rightarrow> Inr (print (created_line output_path sz) w')))"

subsection \<open>\<^verbatim>\<open>main\<close>\<close>

definition sizes :: "int list" where
  "sizes = [72, 96, 128, 144, 152, 192, 384, 512]"

definition icons_dir :: string where
  "icons_dir = ''images/icons''"

definition icon_path :: "int \<Rightarrow> string" where
  "icon_path sz = icons_dir @ ''/icon-'' @ str_int sz @ ''x'' @ str_int sz @ ''.png''"

text \<open>The \<^verbatim>\<open>for\<close> loop: one call of \<open>create_icon\<close> per size, in list order; an exception
  ends the loop.\<close>

fun for_sizes :: "pil \<Rightarrow> int list \<Rightarrow> world \<Rightarrow> outcome" where
  "for_sizes env [] w = Inr w"
| "for_sizes env (sz # rest) w =
     (case create_icon env sz (icon_path sz) w of
        Inl e \<Rightarrow> Inl e
      | Inr w' \<Rightarrow> for_sizes env rest w')"

definition summary_line :: string where
  "summary_line =
     CHR 0x0A # ''Successfully generated '' @ str_int (int (length sizes)) @ '' PWA icons!''"

definition main :: "pil \<Rightarrow> world \<Rightarrow> outcome" where
  "main env w =
     (case makedirs icons_dir True w of
        Inl e \<Rightarrow> Inl e
      | Inr w1 \<Rightarrow>
          (case for_sizes env sizes w1 of
             Inl e \<Rightarrow> Inl e
           | Inr w2 \<Rightarrow> Inr (print summary_line w2)))"

subsection \<open>Preconditions on the file system\<close>

text \<open>\<open>can_write w p\<close>: opening \<open>p\<close> for writing succeeds in \<open>w\<close>. \<open>runnable w\<close>: nothing in
  \<open>w\<close> stands in the way of a run of \<open>main\<close>, that is, no regular file has the name of the
  output directory or of its parent, and no directory has the name of an icon file.\<close>

definition can_write :: "world \<Rightarrow> string \<Rightarrow> bool" where
  "can_write w p =
     (p \<noteq> [] \<and> CHR 0x00 \<notin> set p \<and> basename p \<notin> {[], ''.'', ''..''} \<and>
      canonical p \<notin> dirs w \<and> dir_exists w (dirname p))"

definition runnable :: "world \<Rightarrow> bool" where
  "runnable w =
     (files w ''images'' = None \<and> files w icons_dir = None \<and>
      (\<forall>sz \<in> set sizes. icon_path sz \<notin> dirs w))"

subsection \<open>Notions used in the statements\<close>

fun is_text :: "draw_op \<Rightarrow> bool" where
  "is_text (Text xy t fill f) = True"
| "is_text (Rectangle xy outline w) = False"

subsection \<open>Sample platforms and file systems\<close>

text \<open>A platform without the Helvetica font file, whose default font is a fixed-size
  bitmap font of 6 by 11 pixels per character; a platform on which the font file loads at
  every positive size; an empty file system; a file system that already holds the output
  directory and an older icon.\<close>

definition sample_pil :: pil where
  "sample_pil =
     \<lparr>truetype = (\<lambda>p s. Inl OSError),
      load_default = DefaultFont,
      textbbox = (\<lambda>xy t f. (fst xy, snd xy, fst xy + 6 * int (length t), snd xy + 11))\<rparr>"

definition helvetica_pil :: pil where
  "helvetica_pil =
     \<lparr>truetype = (\<lambda>p s. if p = font_path \<and> 0 < s then Inr (FreeTypeFont p s) else Inl OSError),
      load_default = DefaultFont,
      textbbox = (\<lambda>xy t f.
         case f of
           FreeTypeFont p s \<Rightarrow>
             (fst xy + 1, snd xy + s div 4, fst xy + s * int (length t) div 2, snd xy + s)
         | DefaultFont \<Rightarrow> (fst xy, snd xy, fst xy + 6 * int (length t), snd xy + 11))\<rparr>"

definition empty_world :: world where
  "empty_world = \<lparr>dirs = {}, files = Map.empty, stdout = []\<rparr>"

definition icons_world :: world where
  "icons_world =
     \<lparr>dirs = {''images'', ''images/icons''},
      files = [''images/icons/icon-72x72.png'' \<mapsto>
                 Encoded ''PNG'' (Image_new ''RGB'' (1, 1) ''black'')],
      stdout = []\<rparr>"

section \<open>Lemmas about the embedding\<close>

lemma border_width_ge: "2 \<le> border_width sz"
  by (simp add: border_width_def)

lemma shadow_offset_ge: "1 \<le> shadow_offset sz"
  by (simp add: shadow_offset_def)

lemma well_formed_border_box: "well_formed (border_box sz) \<longleftrightarrow> 4 \<le> sz"
proof -
  have a: "sz div 40 \<le> 2 \<Longrightarrow> (2 \<le> sz - 2) = (4 \<le> sz)" by linarith
  have b: "2 < sz div 40 \<Longrightarrow> 4 \<le> sz \<and> sz div 40 \<le> sz - sz div 40" by linarith
  show ?thesis
    unfolding well_formed_def border_box_def border_width_def
    using a b by (auto simp: max_def)
qed

lemma sizes_ge_4: "sz \<in> set sizes \<Longrightarrow> 4 \<le> sz"
  by (auto simp add: sizes_def)

lemma pillow_accepts:
  "4 \<le> sz \<Longrightarrow> Image_new_accepts (sz, sz) \<and> well_formed (border_box sz)"
  by (simp add: Image_new_accepts_def well_formed_border_box)

lemma drawn_render:
  "drawn (render env sz) =
     [Rectangle (border_box sz) ''#2E7D32'' (border_width sz),
      Text (text_x env sz + shadow_offset sz, text_y env sz + shadow_offset sz) icon_text
        ''#1B5E20'' (load_font env sz),
      Text (text_x env sz, text_y env sz) icon_text ''white'' (load_font env sz)]"
  by (simp add: render_def Let_def Image_new_def rectangle_def draw_text_def)

lemma render_canvas:
  "im_mode (render env sz) = ''RGB''" "im_size (render env sz) = (sz, sz)"
  "im_color (render env sz) = ''#4CAF50''"
  by (simp_all add: render_def Let_def Image_new_def rectangle_def draw_text_def)

lemma save_writes:
  "can_write w p \<Longrightarrow>
   save img p format w = Inr (w\<lparr>files := (files w)(p \<mapsto> Encoded format img)\<rparr>)"
  by (simp add: save_def can_write_def)


lemma create_icon_writes:
  "4 \<le> sz \<Longrightarrow> can_write w p \<Longrightarrow>
   create_icon env sz p w =
     Inr (w\<lparr>files := (files w)(p \<mapsto> Encoded ''PNG'' (render env sz)),
            stdout := stdout w @ [created_line p sz]\<rparr>)"
  by (simp add: create_icon_def pillow_accepts save_writes print_def)


lemma str_int_sizes:
  "str_int 72 = ''72''" "str_int 96 = ''96''" "str_int 128 = ''128''" "str_int 144 = ''144''"
  "str_int 152 = ''152''" "str_int 192 = ''192''" "str_int 384 = ''384''" "str_int 512 = ''512''"
  by (simp_all add: str_int_def str_nat.simps digit_char_def)

lemma str_int_8: "str_int 8 = ''8''"
  by (simp add: str_int_def str_nat.simps digit_char_def)

lemma icon_paths:
  "map icon_path sizes =
    [''images/icons/icon-72x72.png'', ''images/icons/icon-96x96.png'',
     ''images/icons/icon-128x128.png'', ''images/icons/icon-144x144.png'',
     ''images/icons/icon-152x152.png'', ''images/icons/icon-192x192.png'',
     ''images/icons/icon-384x384.png'', ''images/icons/icon-512x512.png'']"
  by (simp add: sizes_def icon_path_def icons_dir_def str_int_sizes)

lemma dirname_icon_path: "sz \<in> set sizes \<Longrightarrow> dirname (icon_path sz) = icons_dir"
  by (auto simp add: sizes_def icon_path_def icons_dir_def str_int_sizes dirname_def)

lemma basename_icon_path:
  "sz \<in> set sizes \<Longrightarrow> basename (icon_path sz) \<notin> {[], ''.'', ''..''}"
  by (auto simp add: sizes_def icon_path_def icons_dir_def str_int_sizes basename_def)

lemma canonical_icon_path: "sz \<in> set sizes \<Longrightarrow> canonical (icon_path sz) = icon_path sz"
  by (auto simp add: sizes_def icon_path_def icons_dir_def str_int_sizes canonical_def)

lemma canonical_icons_dir: "canonical icons_dir = icons_dir"
  by (simp add: icons_dir_def canonical_def)

lemma icon_path_plain: "sz \<in> set sizes \<Longrightarrow> icon_path sz \<noteq> [] \<and> CHR 0x00 \<notin> set (icon_path sz)"
  by (auto simp add: sizes_def icon_path_def icons_dir_def str_int_sizes)

lemma can_write_icon_path:
  "sz \<in> set sizes \<Longrightarrow>
   can_write w (icon_path sz) \<longleftrightarrow> icon_path sz \<notin> dirs w \<and> icons_dir \<in> dirs w"
  using basename_icon_path [of sz]
  by (simp add: can_write_def dir_exists_def dirname_icon_path canonical_icon_path
      canonical_icons_dir icon_path_plain)
    (simp add: icons_dir_def)

lemma ancestors_icons_dir: "ancestors icons_dir = [''images'']"
  by (simp add: ancestors_def icons_dir_def)

lemma can_write_files [simp]:
  "can_write (w\<lparr>files := f, stdout := out\<rparr>) p = can_write w p"
  by (simp add: can_write_def dir_exists_def)

lemma for_sizes_writes:
  "\<forall>sz \<in> set szs. 4 \<le> sz \<and> can_write w (icon_path sz) \<Longrightarrow>
   for_sizes env szs w =
     Inr (w\<lparr>files := foldl (\<lambda>m sz. m(icon_path sz \<mapsto> Encoded ''PNG'' (render env sz)))
                      (files w) szs,
            stdout := stdout w @ map (\<lambda>sz. created_line (icon_path sz) sz) szs\<rparr>)"
proof (induction szs arbitrary: w)
  case Nil
  then show ?case by simp
next
  case (Cons sz rest)
  let ?w' = "w\<lparr>files := (files w)(icon_path sz \<mapsto> Encoded ''PNG'' (render env sz)),
               stdout := stdout w @ [created_line (icon_path sz) sz]\<rparr>"
  have step: "create_icon env sz (icon_path sz) w = Inr ?w'"
    using Cons.prems by (simp add: create_icon_writes)
  have "\<forall>s \<in> set rest. 4 \<le> s \<and> can_write ?w' (icon_path s)"
    using Cons.prems by simp
  from Cons.IH [OF this] step show ?case by simp
qed

lemma icon_path_not_created:
  "icon_path sz \<noteq> icons_dir" "icon_path sz \<noteq> ''images''"
  by (simp_all add: icon_path_def icons_dir_def)

lemma makedirs_icons_dir:
  "files w ''images'' = None \<Longrightarrow> files w icons_dir = None \<Longrightarrow>
   makedirs icons_dir True w = Inr (w\<lparr>dirs := insert icons_dir (insert ''images'' (dirs w))\<rparr>)"
  by (auto simp add: makedirs_def ancestors_icons_dir insert_absorb)

lemma main_result:
  assumes "runnable w"
  shows "main env w =
     Inr (w\<lparr>dirs := insert icons_dir (insert ''images'' (dirs w)),
            files := foldl (\<lambda>m sz. m(icon_path sz \<mapsto> Encoded ''PNG'' (render env sz)))
                      (files w) sizes,
            stdout := stdout w @ map (\<lambda>sz. created_line (icon_path sz) sz) sizes
                        @ [summary_line]\<rparr>)"
proof -
  let ?w1 = "w\<lparr>dirs := insert icons_dir (insert ''images'' (dirs w))\<rparr>"
  have mk: "makedirs icons_dir True w = Inr ?w1"
    using assms by (simp add: runnable_def makedirs_icons_dir)
  have "\<forall>sz \<in> set sizes. 4 \<le> sz \<and> can_write ?w1 (icon_path sz)"
    using assms
    by (simp add: runnable_def can_write_icon_path sizes_ge_4 icon_path_not_created)
  from for_sizes_writes [OF this, of env] mk show ?thesis
    by (simp add: main_def print_def)
qed

lemma foldl_upd_other:
  "p \<notin> f ` set ks \<Longrightarrow> foldl (\<lambda>m k. m(f k \<mapsto> g k)) m0 ks p = m0 p"
  by (induction ks arbitrary: m0) auto

lemma foldl_upd_same:
  "distinct (map f ks) \<Longrightarrow> k \<in> set ks \<Longrightarrow>
   foldl (\<lambda>m k. m(f k \<mapsto> g k)) m0 ks (f k) = Some (g k)"
proof (induction ks arbitrary: m0)
  case Nil
  then show ?case by simp
next
  case (Cons a ks)
  let ?F = "\<lambda>m k. m(f k \<mapsto> g k)"
  have unfold: "foldl ?F m0 (a # ks) = foldl ?F (m0(f a \<mapsto> g a)) ks"
    by (simp only: foldl_Cons)
  show ?case
  proof (cases "k = a")
    case True
    from Cons.prems have "f a \<notin> f ` set ks" by auto
    then have "foldl ?F (m0(f a \<mapsto> g a)) ks (f a) = (m0(f a \<mapsto> g a)) (f a)"
      by (rule foldl_upd_other)
    also have "\<dots> = Some (g a)" by simp
    finally show ?thesis by (simp only: unfold True)
  next
    case False
    with Cons.prems have "distinct (map f ks)" "k \<in> set ks" by auto
    then have "foldl ?F (m0(f a \<mapsto> g a)) ks (f k) = Some (g k)"
      by (rule Cons.IH)
    then show ?thesis by (simp only: unfold)
  qed
qed

lemma distinct_icon_paths: "distinct (map icon_path sizes)"
  unfolding icon_paths by simp

lemma summary_line_eq: "summary_line = CHR 0x0A # ''Successfully generated 8 PWA icons!''"
  by (simp add: summary_line_def sizes_def str_int_8)

lemma main_files:
  assumes "runnable w" and "main env w = Inr w'"
  shows "\<forall>sz \<in> set sizes. files w' (icon_path sz) = Some (Encoded ''PNG'' (render env sz))"
    and "\<forall>p. p \<notin> set (map icon_path sizes) \<longrightarrow> files w' p = files w p"
    and "stdout w' = stdout w @ map (\<lambda>sz. created_line (icon_path sz) sz) sizes
                      @ [CHR 0x0A # ''Successfully generated 8 PWA icons!'']"
    and "dirs w' = insert icons_dir (insert ''images'' (dirs w))"
proof -
  let ?g = "\<lambda>sz. Encoded ''PNG'' (render env sz)"
  from assms main_result [OF assms(1), of env]
  have w': "w' = w\<lparr>dirs := insert icons_dir (insert ''images'' (dirs w)),
            files := foldl (\<lambda>m sz. m(icon_path sz \<mapsto> ?g sz)) (files w) sizes,
            stdout := stdout w @ map (\<lambda>sz. created_line (icon_path sz) sz) sizes
                        @ [summary_line]\<rparr>"
    by simp
  have f: "files w' = foldl (\<lambda>m sz. m(icon_path sz \<mapsto> ?g sz)) (files w) sizes"
    unfolding w' by simp
  show "\<forall>sz \<in> set sizes. files w' (icon_path sz) = Some (?g sz)"
  proof
    fix sz assume "sz \<in> set sizes"
    with distinct_icon_paths show "files w' (icon_path sz) = Some (?g sz)"
      unfolding f by (rule foldl_upd_same)
  qed
  show "\<forall>p. p \<notin> set (map icon_path sizes) \<longrightarrow> files w' p = files w p"
  proof (intro allI impI)
    fix p assume "p \<notin> set (map icon_path sizes)"
    then have "p \<notin> icon_path ` set sizes" by simp
    then show "files w' p = files w p"
      unfolding f by (rule foldl_upd_other)
  qed
  show "stdout w' = stdout w @ map (\<lambda>sz. created_line (icon_path sz) sz) sizes
                      @ [CHR 0x0A # ''Successfully generated 8 PWA icons!'']"
    unfolding w' by (simp add: summary_line_eq)
  show "dirs w' = insert icons_dir (insert ''images'' (dirs w))"
    unfolding w' by simp
qed

lemma main_succeeds: "runnable w \<Longrightarrow> \<exists>w'. main env w = Inr w'"
  by (simp add: main_result)

lemma created_lines:
  "map (\<lambda>sz. created_line (icon_path sz) sz) sizes =
    [''Created images/icons/icon-72x72.png (72x72)'',
     ''Created images/icons/icon-96x96.png (96x96)'',
     ''Created images/icons/icon-128x128.png (128x128)'',
     ''Created images/icons/icon-144x144.png (144x144)'',
     ''Created images/icons/icon-152x152.png (152x152)'',
     ''Created images/icons/icon-192x192.png (192x192)'',
     ''Created images/icons/icon-384x384.png (384x384)'',
     ''Created images/icons/icon-512x512.png (512x512)'']"
  by (simp add: sizes_def created_line_def icon_path_def icons_dir_def str_int_sizes)

lemma sizes_eight: "length sizes = 8"
  by (simp add: sizes_def)

lemma floor_half: "\<lfloor>(real_of_int a - real_of_int b) / 2\<rfloor> = (a - b) div 2"
proof -
  have "(real_of_int a - real_of_int b) / 2 = real_of_int (a - b) / real_of_int 2" by simp
  then show ?thesis by (simp only: floor_divide_of_int_eq)
qed


lemma text_width_bbox:
  "textbbox env (0, 0) icon_text (load_font env sz) = (b0, b1, b2, b3) \<Longrightarrow>
   text_width env sz = b2 - b0 \<and> text_height env sz = b3 - b1"
  by (simp add: text_width_def text_height_def text_bbox_def)





lemma render_explicit:
  assumes "font = (case truetype env font_path (sz div 2) of Inr f \<Rightarrow> f | Inl e \<Rightarrow> load_default env)"
    and "textbbox env (0, 0) ''IM'' font = (b0, b1, b2, b3)"
  shows "load_font env sz = font"
    and "text_x env sz = (sz - (b2 - b0)) div 2"
    and "text_y env sz = (sz - (b3 - b1)) div 2 - b1"
proof -
  show f: "load_font env sz = font"
    by (simp add: load_font_def assms(1))
  have b: "text_bbox env sz = (b0, b1, b2, b3)"
    using assms(2) by (simp add: text_bbox_def f icon_text_def)
  show "text_x env sz = (sz - (b2 - b0)) div 2"
    by (simp add: text_x_def text_width_def b)
  show "text_y env sz = (sz - (b3 - b1)) div 2 - b1"
    by (simp add: text_y_def text_height_def b)
qed


section \<open>The claims\<close>

text \<open>
  C1. For every size of the fixed list, \<open>create_icon\<close> produces an RGB image whose
  dimensions are the size by the size and stores it, encoded as PNG, at the destination
  path. The call completes whenever the destination can be opened for writing; the image
  itself does not depend on the file system.
\<close>

theorem create_icon_square_png:
  assumes "sz \<in> set sizes" and "can_write w output_path"
  shows "\<exists>w'. create_icon env sz output_path w = Inr w' \<and>
           files w' output_path = Some (Encoded ''PNG'' (render env sz)) \<and>
           im_mode (render env sz) = ''RGB'' \<and>
           im_size (render env sz) = (sz, sz)"
  using assms by (simp add: create_icon_writes sizes_ge_4 render_canvas)

theorem create_icon_square_png_witness:
  "72 \<in> set sizes \<and> can_write icons_world ''images/icons/icon-72x72.png'' \<and>
   (\<exists>w'. create_icon sample_pil 72 ''images/icons/icon-72x72.png'' icons_world = Inr w' \<and>
      files w' ''images/icons/icon-72x72.png'' = Some (Encoded ''PNG'' (render sample_pil 72)) \<and>
      im_mode (render sample_pil 72) = ''RGB'' \<and>
      im_size (render sample_pil 72) = (72, 72))"
proof -
  have h1: "72 \<in> set sizes" by (simp add: sizes_def)
  have h2: "can_write icons_world ''images/icons/icon-72x72.png''"
    by (simp add: can_write_def icons_world_def dir_exists_def dirname_def basename_def
        canonical_def)
  from h1 h2 create_icon_square_png [OF h1 h2] show ?thesis by blast
qed

text \<open>
  C2. The driver goes through the list 72, 96, 128, 144, 152, 192, 384, 512 once, in that
  order, and calls the generator with the path \<^verbatim>\<open>images/icons/icon-{size}x{size}.png\<close>
  for each: a complete run leaves the eight files \<^verbatim>\<open>icon-72x72.png\<close> to
  \<^verbatim>\<open>icon-512x512.png\<close>, each the PNG of the icon of its size, changes no other file,
  prints the eight status lines in list order and then a summary that counts 8. The run
  is complete in every file system in which nothing blocks the directory or the files.
\<close>

theorem main_generates_eight_icons:
  assumes "runnable w"
  shows "sizes = [72, 96, 128, 144, 152, 192, 384, 512] \<and> length sizes = 8 \<and>
     map icon_path sizes =
       [''images/icons/icon-72x72.png'', ''images/icons/icon-96x96.png'',
        ''images/icons/icon-128x128.png'', ''images/icons/icon-144x144.png'',
        ''images/icons/icon-152x152.png'', ''images/icons/icon-192x192.png'',
        ''images/icons/icon-384x384.png'', ''images/icons/icon-512x512.png''] \<and>
     distinct (map icon_path sizes) \<and>
     map (\<lambda>sz. created_line (icon_path sz) sz) sizes =
       [''Created images/icons/icon-72x72.png (72x72)'',
        ''Created images/icons/icon-96x96.png (96x96)'',
        ''Created images/icons/icon-128x128.png (128x128)'',
        ''Created images/icons/icon-144x144.png (144x144)'',
        ''Created images/icons/icon-152x152.png (152x152)'',
        ''Created images/icons/icon-192x192.png (192x192)'',
        ''Created images/icons/icon-384x384.png (384x384)'',
        ''Created images/icons/icon-512x512.png (512x512)''] \<and>
     (\<exists>w'. main env w = Inr w' \<and>
        (\<forall>sz \<in> set sizes. files w' (icon_path sz) = Some (Encoded ''PNG'' (render env sz))) \<and>
        (\<forall>p. p \<notin> set (map icon_path sizes) \<longrightarrow> files w' p = files w p) \<and>
        stdout w' = stdout w @ map (\<lambda>sz. created_line (icon_path sz) sz) sizes
                      @ [CHR 0x0A # ''Successfully generated 8 PWA icons!''])"
proof -
  from main_succeeds [OF assms] obtain w' where m: "main env w = Inr w'" ..
  note r = main_files [OF assms m]
  have "\<exists>w'. main env w = Inr w' \<and>
        (\<forall>sz \<in> set sizes. files w' (icon_path sz) = Some (Encoded ''PNG'' (render env sz))) \<and>
        (\<forall>p. p \<notin> set (map icon_path sizes) \<longrightarrow> files w' p = files w p) \<and>
        stdout w' = stdout w @ map (\<lambda>sz. created_line (icon_path sz) sz) sizes
                      @ [CHR 0x0A # ''Successfully generated 8 PWA icons!'']"
    using m r(1,2,3) by blast
  moreover have "sizes = [72, 96, 128, 144, 152, 192, 384, 512]" by (rule sizes_def)
  ultimately show ?thesis
    using icon_paths distinct_icon_paths created_lines sizes_eight by (intro conjI)
qed

theorem main_generates_eight_icons_witness:
  "runnable empty_world \<and>
   (\<exists>w'. main sample_pil empty_world = Inr w' \<and>
      (\<forall>sz \<in> set sizes.
          files w' (icon_path sz) = Some (Encoded ''PNG'' (render sample_pil sz))) \<and>
      (\<forall>p. p \<notin> set (map icon_path sizes) \<longrightarrow> files w' p = files empty_world p) \<and>
      stdout w' = stdout empty_world @ map (\<lambda>sz. created_line (icon_path sz) sz) sizes
                    @ [CHR 0x0A # ''Successfully generated 8 PWA icons!''])"
proof -
  have h: "runnable empty_world"
    by (simp add: runnable_def empty_world_def)
  from main_generates_eight_icons [OF h, of sample_pil] have
    "\<exists>w'. main sample_pil empty_world = Inr w' \<and>
      (\<forall>sz \<in> set sizes.
          files w' (icon_path sz) = Some (Encoded ''PNG'' (render sample_pil sz))) \<and>
      (\<forall>p. p \<notin> set (map icon_path sizes) \<longrightarrow> files w' p = files empty_world p) \<and>
      stdout w' = stdout empty_world @ map (\<lambda>sz. created_line (icon_path sz) sz) sizes
                    @ [CHR 0x0A # ''Successfully generated 8 PWA icons!'']"
    by (elim conjE)
  with h show ?thesis by (rule conjI)
qed

text \<open>
  C4. For every size from 1 on, the border width is at least 2 and is \<open>max 2 (size div 40)\<close>,
  hence \<open>size div 40\<close> as soon as that exceeds 2; the border is the first drawing call, a
  rectangle in the outline colour of that width whose corners lie that width inside the
  canvas, at \<open>(bw, bw)\<close> and \<open>(size - bw, size - bw)\<close>.
\<close>

theorem border_width_at_least_two:
  assumes "1 \<le> sz"
  shows "2 \<le> border_width sz \<and>
     border_width sz = max 2 (sz div 40) \<and>
     (2 < sz div 40 \<longrightarrow> border_width sz = sz div 40) \<and>
     hd (drawn (render env sz)) =
       Rectangle ((border_width sz, border_width sz), (sz - border_width sz, sz - border_width sz))
         ''#2E7D32'' (border_width sz) \<and>
     filter (\<lambda>d. \<not> is_text d) (drawn (render env sz)) = [hd (drawn (render env sz))]"
  by (simp add: border_width_ge drawn_render border_box_def) (simp add: border_width_def)

theorem border_width_at_least_two_witness:
  "(1::int) \<le> 128 \<and> 2 < (128::int) div 40 \<and> border_width 128 = 3 \<and>
   hd (drawn (render sample_pil 128)) = Rectangle ((3, 3), (125, 125)) ''#2E7D32'' 3"
  using border_width_at_least_two [of 128 sample_pil]
  by (simp add: border_width_def)

text \<open>
  C9. For every size of the fixed list the border rectangle is well formed: its top-left
  corner \<open>(bw, bw)\<close> is component-wise at most its bottom-right corner
  \<open>(size - bw, size - bw)\<close>. This is not so for every positive size: it fails for the sizes
  1, 2 and 3, and holds exactly from size 4 on.
\<close>

theorem border_box_well_formed:
  "(\<forall>sz \<in> set sizes. well_formed (border_box sz)) \<and>
   (\<forall>sz. 1 \<le> sz \<and> sz < 4 \<longrightarrow> \<not> well_formed (border_box sz)) \<and>
   (\<forall>sz. well_formed (border_box sz) \<longleftrightarrow> 4 \<le> sz)"
  by (simp add: well_formed_border_box sizes_def)

theorem border_box_well_formed_witness:
  "72 \<in> set sizes \<and> well_formed (border_box 72) \<and> border_box 72 = ((2, 2), (70, 70)) \<and>
   (1::int) \<le> 3 \<and> (3::int) < 4 \<and> \<not> well_formed (border_box 3) \<and> border_box 3 = ((2, 2), (1, 1))"
proof -
  have h: "72 \<in> set sizes" by (simp add: sizes_def)
  from border_box_well_formed have
    a: "\<forall>sz \<in> set sizes. well_formed (border_box sz)" and
    b: "\<forall>sz. 1 \<le> sz \<and> sz < 4 \<longrightarrow> \<not> well_formed (border_box sz)"
    by blast+
  from a h have "well_formed (border_box 72)" by (rule bspec)
  moreover from b have "\<not> well_formed (border_box 3)" by simp
  ultimately show ?thesis using h by (simp add: border_box_def border_width_def)
qed

text \<open>
  C10. For every size from 1 on, the shadow offset is \<open>max 1 (size div 100)\<close> and so at
  least 1; the shadow text, drawn second, is placed at the position of the foreground
  text, drawn third, moved by the offset in both axes, which is never the same position.
\<close>

theorem shadow_offset_at_least_one:
  assumes "1 \<le> sz"
  shows "shadow_offset sz = max 1 (sz div 100) \<and> 1 \<le> shadow_offset sz \<and>
     (\<exists>p q f. drawn (render env sz) ! 1 = Text p icon_text ''#1B5E20'' f \<and>
        drawn (render env sz) ! 2 = Text q icon_text ''white'' f \<and>
        p = (fst q + shadow_offset sz, snd q + shadow_offset sz) \<and> p \<noteq> q)"
proof -
  have "1 \<le> shadow_offset sz" by (rule shadow_offset_ge)
  then have "(text_x env sz + shadow_offset sz, text_y env sz + shadow_offset sz)
      \<noteq> (text_x env sz, text_y env sz)"
    by simp
  then show ?thesis
    using shadow_offset_ge [of sz] by (simp add: drawn_render) (simp add: shadow_offset_def)
qed

theorem shadow_offset_at_least_one_witness:
  "(1::int) \<le> 512 \<and> shadow_offset 512 = 5 \<and>
   (\<exists>p q f. drawn (render sample_pil 512) ! 1 = Text p icon_text ''#1B5E20'' f \<and>
        drawn (render sample_pil 512) ! 2 = Text q icon_text ''white'' f \<and>
        p = (fst q + shadow_offset 512, snd q + shadow_offset 512) \<and> p \<noteq> q)"
  using shadow_offset_at_least_one [of 512 sample_pil]
  by (simp add: shadow_offset_def)

text \<open>
  C5. For every size and every bounding box that the measurement of the text returns, with
  the text width \<open>tw\<close> its right edge minus its left edge, the foreground text, which is the
  last drawing call, is drawn at the horizontal coordinate
  \<open>floor ((size - tw) / 2)\<close>; the space left of that coordinate and the space right of
  \<open>x + tw\<close> differ by at most one pixel.
\<close>

theorem text_centred_horizontally:
  assumes "textbbox env (0, 0) ''IM'' (load_font env sz) = (b0, b1, b2, b3)"
    and "tw = b2 - b0"
  shows "\<exists>x y. last (drawn (render env sz)) = Text (x, y) ''IM'' ''white'' (load_font env sz) \<and>
           x = \<lfloor>(real_of_int sz - real_of_int tw) / 2\<rfloor> \<and>
           x = (sz - tw) div 2 \<and>
           (sz - (x + tw)) - x \<in> {0, 1}"
proof -
  from assms(1) have tw: "text_width env sz = b2 - b0"
    by (simp add: text_width_bbox icon_text_def)
  have x: "text_x env sz = (sz - tw) div 2"
    by (simp add: text_x_def tw assms(2))
  have m: "(sz - ((sz - tw) div 2 + tw)) - (sz - tw) div 2 \<in> {0, 1}"
    by (simp, linarith)
  show ?thesis
    using m by (simp add: drawn_render x floor_half icon_text_def)
qed

theorem text_centred_horizontally_witness:
  "textbbox helvetica_pil (0, 0) ''IM'' (load_font helvetica_pil 512) = (1, 64, 256, 256) \<and>
   (255::int) = 256 - 1 \<and>
   (\<exists>x y. last (drawn (render helvetica_pil 512)) =
        Text (x, y) ''IM'' ''white'' (load_font helvetica_pil 512) \<and>
      x = \<lfloor>(real_of_int 512 - real_of_int 255) / 2\<rfloor> \<and>
      x = (512 - 255) div 2 \<and>
      (512 - (x + 255)) - x \<in> {0, 1})"
proof -
  have f: "load_font helvetica_pil 512 = FreeTypeFont font_path 256"
    by (simp add: load_font_def helvetica_pil_def)
  have h1: "textbbox helvetica_pil (0, 0) ''IM'' (load_font helvetica_pil 512) = (1, 64, 256, 256)"
    unfolding f by (simp add: helvetica_pil_def)
  have h2: "(255::int) = 256 - 1" by simp
  from text_centred_horizontally [OF h1 h2] h1 h2 show ?thesis by (intro conjI)
qed






text \<open>
  C7, as the code has it. In every call with a size from 4 on, the sizes for which Pillow
  accepts the border rectangle, the image carries exactly two text drawing calls, both of
  the text \<^verbatim>\<open>IM\<close> in the font that was loaded: first the shadow, in the colour
  \<^verbatim>\<open>#1B5E20\<close>, at \<open>(x + so, y + so)\<close>, then the foreground, in white, at \<open>(x, y)\<close>,
  where \<open>x = (size - text_width) div 2\<close>, \<open>y = (size - text_height) div 2 - bbox[1]\<close> and
  \<open>so = max 1 (size div 100)\<close>. The foreground is the later call, so it is painted over the
  shadow where the two overlap. That image is what the call saves.
\<close>

theorem text_drawn_twice:
  assumes "4 \<le> sz"
    and "font = (case truetype env font_path (sz div 2) of
                   Inr f \<Rightarrow> f | Inl e \<Rightarrow> load_default env)"
    and "textbbox env (0, 0) ''IM'' font = (b0, b1, b2, b3)"
    and "x = (sz - (b2 - b0)) div 2"
    and "y = (sz - (b3 - b1)) div 2 - b1"
    and "so = max 1 (sz div 100)"
  shows "drawn (render env sz) =
       [Rectangle ((max 2 (sz div 40), max 2 (sz div 40)),
                   (sz - max 2 (sz div 40), sz - max 2 (sz div 40)))
          ''#2E7D32'' (max 2 (sz div 40)),
        Text (x + so, y + so) ''IM'' ''#1B5E20'' font,
        Text (x, y) ''IM'' ''white'' font] \<and>
     filter is_text (drawn (render env sz)) =
       [Text (x + so, y + so) ''IM'' ''#1B5E20'' font, Text (x, y) ''IM'' ''white'' font] \<and>
     (can_write w p \<longrightarrow>
        (\<exists>w'. create_icon env sz p w = Inr w' \<and>
           files w' p = Some (Encoded ''PNG'' (render env sz))))"
proof -
  note r = render_explicit [OF assms(2) assms(3)]
  have d: "drawn (render env sz) =
       [Rectangle ((max 2 (sz div 40), max 2 (sz div 40)),
                   (sz - max 2 (sz div 40), sz - max 2 (sz div 40)))
          ''#2E7D32'' (max 2 (sz div 40)),
        Text (x + so, y + so) ''IM'' ''#1B5E20'' font,
        Text (x, y) ''IM'' ''white'' font]"
    by (simp add: drawn_render r assms(4,5,6) border_box_def border_width_def
        shadow_offset_def icon_text_def)
  then have t: "filter is_text (drawn (render env sz)) =
       [Text (x + so, y + so) ''IM'' ''#1B5E20'' font, Text (x, y) ''IM'' ''white'' font]"
    by simp
  have s: "can_write w p \<longrightarrow>
        (\<exists>w'. create_icon env sz p w = Inr w' \<and>
           files w' p = Some (Encoded ''PNG'' (render env sz)))"
    using assms(1) by (simp add: create_icon_writes)
  from d t s show ?thesis by (intro conjI)
qed

theorem text_drawn_twice_witness:
  "(4::int) \<le> 512 \<and>
   FreeTypeFont font_path 256 =
     (case truetype helvetica_pil font_path (512 div 2) of
        Inr f \<Rightarrow> f | Inl e \<Rightarrow> load_default helvetica_pil) \<and>
   textbbox helvetica_pil (0, 0) ''IM'' (FreeTypeFont font_path 256) = (1, 64, 256, 256) \<and>
   (128::int) = (512 - (256 - 1)) div 2 \<and>
   (96::int) = (512 - (256 - 64)) div 2 - 64 \<and>
   (5::int) = max 1 (512 div 100) \<and>
   can_write icons_world ''images/icons/icon-512x512.png'' \<and>
   drawn (render helvetica_pil 512) =
     [Rectangle ((12, 12), (500, 500)) ''#2E7D32'' 12,
      Text (133, 101) ''IM'' ''#1B5E20'' (FreeTypeFont font_path 256),
      Text (128, 96) ''IM'' ''white'' (FreeTypeFont font_path 256)] \<and>
   (\<exists>w'. create_icon helvetica_pil 512 ''images/icons/icon-512x512.png'' icons_world = Inr w' \<and>
      files w' ''images/icons/icon-512x512.png'' = Some (Encoded ''PNG'' (render helvetica_pil 512)))"
proof -
  let ?p = "''images/icons/icon-512x512.png''"
  let ?f = "FreeTypeFont font_path 256"
  have h1: "(4::int) \<le> 512" by simp
  have h2: "?f = (case truetype helvetica_pil font_path (512 div 2) of
        Inr f \<Rightarrow> f | Inl e \<Rightarrow> load_default helvetica_pil)"
    by (simp add: helvetica_pil_def)
  have h3: "textbbox helvetica_pil (0, 0) ''IM'' ?f = (1, 64, 256, 256)"
    by (simp add: helvetica_pil_def)
  have h4: "(128::int) = (512 - (256 - 1)) div 2" by simp
  have h5: "(96::int) = (512 - (256 - 64)) div 2 - 64" by simp
  have h6: "(5::int) = max 1 (512 div 100)" by simp
  have h7: "can_write icons_world ?p"
    by (simp add: can_write_def icons_world_def dir_exists_def dirname_def basename_def
        canonical_def)
  note t = text_drawn_twice [OF h1 h2 h3 h4 h5 h6, of icons_world ?p]
  from t have a: "drawn (render helvetica_pil 512) =
     [Rectangle ((12, 12), (500, 500)) ''#2E7D32'' 12,
      Text (133, 101) ''IM'' ''#1B5E20'' ?f,
      Text (128, 96) ''IM'' ''white'' ?f]"
    by simp
  from t h7 have b: "\<exists>w'. create_icon helvetica_pil 512 ?p icons_world = Inr w' \<and>
      files w' ?p = Some (Encoded ''PNG'' (render helvetica_pil 512))"
    by blast
  from h1 h2 h3 h4 h5 h6 h7 a b show ?thesis by (intro conjI)
qed

text \<open>
  C7 as the specification words it, for every call, fails at size 3: the border box is
  \<open>((2, 2), (1, 1))\<close>, \<^verbatim>\<open>draw.rectangle\<close> raises \<^verbatim>\<open>ValueError\<close> at line 16, and the call
  ends there, before either text is drawn, although the font loads and the destination
  can be opened for writing.
\<close>

theorem text_drawn_twice_counterexample:
  "border_box 3 = ((2, 2), (1, 1)) \<and>
   truetype helvetica_pil font_path (3 div 2) = Inr (FreeTypeFont font_path 1) \<and>
   can_write icons_world ''images/icons/icon-3x3.png'' \<and>
   create_icon helvetica_pil 3 ''images/icons/icon-3x3.png'' icons_world
     = Inl (ValueError, icons_world)"
  by (simp add: create_icon_def Image_new_accepts_def well_formed_def border_box_def
      border_width_def helvetica_pil_def can_write_def icons_world_def dir_exists_def
      dirname_def basename_def canonical_def)

end
